theory Spec2Isabelle
  imports Complex_Main
begin

section \<open>JavaScript values read by the client\<close>

text \<open>
  A JavaScript Number is modelled as a finite real or \<open>NaN\<close>. JSON carries neither
  infinities nor \<open>NaN\<close>, and the magnitudes met here (probabilities scaled to percent) are
  far from overflow, so infinities and the sign of zero are left out.

  Every arithmetic operator of the source rounds its exact result to a double, and so
  does a literal that no double holds exactly (\<open>99.9\<close>; the integers \<open>1\<close>, \<open>90\<close> and \<open>100\<close>
  are doubles). The rounding is the parameter \<open>rnd\<close> of the operations: \<open>\<lambda>x. x\<close> is
  exact arithmetic, and \<open>standard_model\<close> is what IEEE 754 binary64 in round-to-nearest
  gives within the range of a double: a relative error of at most \<open>2 ^ - 53\<close>, and an
  absolute error of at most \<open>2 ^ - 1074\<close> where the result underflows.
\<close>

datatype number = NaN | Fin real

type_synonym rounding = "real \<Rightarrow> real"

definition standard_model :: "rounding \<Rightarrow> bool" where
  "standard_model rnd =
     (\<forall>x. \<bar>x\<bar> \<le> 2 ^ 1023 \<longrightarrow> \<bar>rnd x - x\<bar> \<le> \<bar>x\<bar> / 2 ^ 53 + 1 / 2 ^ 1074)"

text \<open>
  A property read off a JSON object is \<open>undefined\<close> when the key is missing, \<open>null\<close> when the
  body says so, and a value otherwise. A value that is present has the JSON type the service
  contract gives the field.
\<close>

datatype 'a field = Undefined | Null | Val 'a

text \<open>\<open>ToNumber\<close> of the language: \<open>undefined\<close> is \<open>NaN\<close>, \<open>null\<close> is \<open>0\<close>.\<close>

fun ToNumber :: "number field \<Rightarrow> number" where
  "ToNumber Undefined = NaN"
| "ToNumber Null = Fin 0"
| "ToNumber (Val n) = n"

fun mul :: "rounding \<Rightarrow> number \<Rightarrow> number \<Rightarrow> number" where
  "mul rnd (Fin x) (Fin y) = Fin (rnd (x * y))"
| "mul rnd _ _ = NaN"

fun sub :: "rounding \<Rightarrow> number \<Rightarrow> number \<Rightarrow> number" where
  "sub rnd (Fin x) (Fin y) = Fin (rnd (x - y))"
| "sub rnd _ _ = NaN"

text \<open>The only division of the source is by the literal \<open>100\<close>; a zero divisor (an infinity
  or \<open>NaN\<close> in the language) is outside the model and given as \<open>NaN\<close>.\<close>

fun divide_num :: "rounding \<Rightarrow> number \<Rightarrow> number \<Rightarrow> number" where
  "divide_num rnd (Fin x) (Fin y) = (if y = 0 then NaN else Fin (rnd (x / y)))"
| "divide_num rnd _ _ = NaN"

text \<open>Comparisons with \<open>NaN\<close> are false.\<close>

fun gt :: "number \<Rightarrow> real \<Rightarrow> bool" where
  "gt (Fin x) y = (x > y)"
| "gt NaN y = False"

fun ge :: "number \<Rightarrow> real \<Rightarrow> bool" where
  "ge (Fin x) y = (x \<ge> y)"
| "ge NaN y = False"

text \<open>\<open>a ?? b\<close>: the right operand when the left one is \<open>undefined\<close> or \<open>null\<close>.\<close>

fun nullish :: "'a field \<Rightarrow> bool" where
  "nullish (Val v) = False"
| "nullish _ = True"

fun coalesce :: "'a field \<Rightarrow> 'a field \<Rightarrow> 'a field" where
  "coalesce (Val v) d = Val v"
| "coalesce _ d = d"

text \<open>Truthiness of a boolean property and of an object property.\<close>

fun truthy :: "bool field \<Rightarrow> bool" where
  "truthy (Val b) = b"
| "truthy _ = False"

fun truthy_obj :: "'a field \<Rightarrow> bool" where
  "truthy_obj (Val v) = True"
| "truthy_obj _ = False"

text \<open>A string is truthy when it is not empty.\<close>

fun truthy_str :: "string field \<Rightarrow> bool" where
  "truthy_str (Val s) = (s \<noteq> [])"
| "truthy_str _ = False"

section \<open>The response of the detection service\<close>

record verdict =
  v_label :: "string field"
  v_confidence :: "number field"

record ensemble_verdict =
  e_label :: "string field"
  e_confidence :: "number field"
  agreement :: "bool field"

record AnalysisResult =
  label :: "string field"
  confidence :: "number field"
  is_ai :: "bool field"
  input_type :: "string field"
  ai_probability :: "number field"
  real_probability :: "number field"
  sampled_frames :: "number field"
  ai_frames :: "number field"
  real_frames :: "number field"
  sample_interval_sec :: "number field"
  duration_seconds :: "number field"
  grok :: "verdict field"
  ensemble :: "ensemble_verdict field"

text \<open>The minimal contract of the data model: the four required fields are present,
  the confidence is a number of \<open>[0, 1]\<close>, the input type is one of the two kinds.\<close>

definition well_formed :: "AnalysisResult \<Rightarrow> bool" where
  "well_formed r =
     ((case label r of Val l \<Rightarrow> True | _ \<Rightarrow> False) \<and>
      (case confidence r of Val (Fin c) \<Rightarrow> 0 \<le> c \<and> c \<le> 1 | _ \<Rightarrow> False) \<and>
      (case is_ai r of Val b \<Rightarrow> True | _ \<Rightarrow> False) \<and>
      (input_type r = Val ''image'' \<or> input_type r = Val ''video''))"

section \<open>Result.jsx: the derived view\<close>

datatype reliability_tier = VeryHigh | Suspicious | Low

text \<open>\<open>getReliability\<close> closes over \<open>confidenceValue\<close>; here it is its argument. The three
  object literals it returns are named by their titles (Very High, Suspicious, Low). The
  literal \<open>99.9\<close> is the double next to it.\<close>

definition getReliability :: "rounding \<Rightarrow> number \<Rightarrow> reliability_tier" where
  "getReliability rnd confidenceValue =
     (if gt confidenceValue (rnd (999 / 10)) then VeryHigh
      else if ge confidenceValue 90 then Suspicious
      else Low)"

record video_details =
  vd_sampled_frames :: "number field"
  vd_ai_frames :: "number field"
  vd_real_frames :: "number field"
  vd_sample_interval_sec :: "number field"
  vd_duration_seconds :: "number field"

record ensemble_line =
  el_label :: "string field"
  el_pct :: number
  el_agreement :: bool

record grok_block =
  gb_label :: "string field"
  gb_pct :: number
  gb_ensemble :: "ensemble_line option"

record ResultView =
  rv_label :: "string field"
  isAiGenerated :: bool
  aiProbability :: number
  realProbability :: number
  confidenceValue :: number
  video :: "video_details option"
  crossCheck :: "grok_block option"
  reliability :: reliability_tier

text \<open>
  \<^verbatim>\<open>const aiProbability = (result.ai_probability ?? (isAiGenerated ? result.confidence
                                                     : 1 - result.confidence)) * 100;\<close>
\<close>

definition aiProbability_of :: "rounding \<Rightarrow> AnalysisResult \<Rightarrow> number" where
  "aiProbability_of rnd r =
     mul rnd
       (ToNumber (coalesce (ai_probability r)
          (if truthy (is_ai r) then confidence r
           else Val (sub rnd (Fin 1) (ToNumber (confidence r))))))
       (Fin 100)"

text \<open>
  \<^verbatim>\<open>const realProbability = (result.real_probability ?? (100 - aiProbability) / 100) * 100;\<close>
\<close>

definition realProbability_of :: "rounding \<Rightarrow> AnalysisResult \<Rightarrow> number" where
  "realProbability_of rnd r =
     mul rnd
       (ToNumber (coalesce (real_probability r)
          (Val (divide_num rnd (sub rnd (Fin 100) (aiProbability_of rnd r)) (Fin 100)))))
       (Fin 100)"

definition confidenceValue_of :: "rounding \<Rightarrow> AnalysisResult \<Rightarrow> number" where
  "confidenceValue_of rnd r = mul rnd (ToNumber (confidence r)) (Fin 100)"

text \<open>The video block is rendered when \<open>result.input_type === 'video'\<close>; its five numbers
  are the properties as read, missing ones included.\<close>

definition video_of :: "AnalysisResult \<Rightarrow> video_details option" where
  "video_of r =
     (if input_type r = Val ''video''
      then Some \<lparr>vd_sampled_frames = sampled_frames r, vd_ai_frames = ai_frames r,
                 vd_real_frames = real_frames r,
                 vd_sample_interval_sec = sample_interval_sec r,
                 vd_duration_seconds = duration_seconds r\<rparr>
      else None)"

text \<open>The cross-check block is rendered when \<open>!!result.grok\<close>, its ensemble line when
  \<open>result.ensemble\<close> is truthy; both guards stand before the property reads they protect.\<close>

definition crossCheck_of :: "rounding \<Rightarrow> AnalysisResult \<Rightarrow> grok_block option" where
  "crossCheck_of rnd r =
     (case grok r of
        Val g \<Rightarrow>
          Some \<lparr>gb_label = v_label g,
                gb_pct = mul rnd (ToNumber (v_confidence g)) (Fin 100),
                gb_ensemble =
                  (case ensemble r of
                     Val e \<Rightarrow>
                       Some \<lparr>el_label = e_label e,
                             el_pct = mul rnd (ToNumber (e_confidence e)) (Fin 100),
                             el_agreement = truthy (agreement e)\<rparr>
                   | _ \<Rightarrow> None)\<rparr>
      | _ \<Rightarrow> None)"

datatype js_error = TypeError

text \<open>
  The component reads properties of its \<open>result\<close> prop at once
  (\<^verbatim>\<open>const isAiGenerated = result.is_ai;\<close>): on \<open>null\<close> or \<open>undefined\<close> that read
  throws a TypeError.
  The formatting of the numbers (\<open>toFixed(1)\<close>) is left to the presentation.
\<close>

fun Result :: "rounding \<Rightarrow> AnalysisResult field \<Rightarrow> js_error + ResultView" where
  "Result rnd (Val r) =
     Inr \<lparr>rv_label = label r,
          isAiGenerated = truthy (is_ai r),
          aiProbability = aiProbability_of rnd r,
          realProbability = realProbability_of rnd r,
          confidenceValue = confidenceValue_of rnd r,
          video = video_of r,
          crossCheck = crossCheck_of rnd r,
          reliability = getReliability rnd (confidenceValue_of rnd r)\<rparr>"
| "Result rnd _ = Inl TypeError"

text \<open>The response of the end-to-end scenario, its numbers taken as written:
  \<^verbatim>\<open>{label:"AI-Generated", confidence:0.97, is_ai:true, input_type:"image"}\<close>.\<close>

definition scenario_result :: AnalysisResult where
  "scenario_result =
     \<lparr>label = Val ''AI-Generated'', confidence = Val (Fin (97 / 100)), is_ai = Val True,
      input_type = Val ''image'', ai_probability = Undefined, real_probability = Undefined,
      sampled_frames = Undefined, ai_frames = Undefined, real_frames = Undefined,
      sample_interval_sec = Undefined, duration_seconds = Undefined,
      grok = Undefined, ensemble = Undefined\<rparr>"

section \<open>Upload.jsx and App.jsx: the state of the client\<close>

record File =
  file_name :: string
  file_type :: string
  file_size :: nat

text \<open>An object URL made by \<open>URL.createObjectURL\<close> is named by its position in the
  document's store of object URLs.\<close>

type_synonym url = nat

text \<open>
  The five \<open>useState\<close> cells of \<open>App\<close>, and what the component reaches outside itself:
  the store of object URLs (each with the file it points to; an entry stays until
  \<open>URL.revokeObjectURL\<close> removes it), the requests posted and not yet settled, and the
  number of \<open>axios.post\<close> calls made so far.
\<close>

record world =
  "file" :: "File field"
  preview :: "url field"
  result :: "AnalysisResult field"
  loading :: bool
  error :: "string field"
  object_urls :: "File list"
  in_flight :: "File list"
  posts :: nat

definition init :: world where
  "init = \<lparr>file = Null, preview = Null, result = Null, loading = False, error = Null,
           object_urls = [], in_flight = [], posts = 0\<rparr>"

text \<open>
  \<^verbatim>\<open>setFile(selectedFile); setError(null); setPreview(URL.createObjectURL(selectedFile));\<close>
  The new URL is the next position of the store.
\<close>

definition handleFileSelect :: "File \<Rightarrow> world \<Rightarrow> world" where
  "handleFileSelect selectedFile w =
     w\<lparr>file := Val selectedFile,
       error := Null,
       preview := Val (length (object_urls w)),
       object_urls := object_urls w @ [selectedFile]\<rparr>"

text \<open>\<open>onDrop\<close> of \<open>Upload\<close>: the first of the accepted files, if there is one.\<close>

fun onDrop :: "File list \<Rightarrow> world \<Rightarrow> world" where
  "onDrop [] w = w"
| "onDrop (f # fs) w = handleFileSelect f w"

text \<open>
  \<open>handleAnalyze\<close> is asynchronous. Up to its \<open>await\<close> it runs at the click:
  \<^verbatim>\<open>if (!file) return; setLoading(true); setError(null); setResult(null);\<close>
  and posts the file.
\<close>

definition handleAnalyze :: "world \<Rightarrow> world" where
  "handleAnalyze w =
     (case file w of
        Val f \<Rightarrow>
          w\<lparr>loading := True, error := Null, result := Null,
            in_flight := in_flight w @ [f], posts := Suc (posts w)\<rparr>
      | _ \<Rightarrow> w)"

text \<open>What the request settles with: a 2xx response and its body, or the error axios
  throws (a response with another status, or no response at all).\<close>

record error_body =
  detail :: "string field"

record error_response =
  status :: nat
  data :: "error_body field"

record axios_error =
  response :: "error_response field"
  message :: "string field"

datatype outcome = Fulfilled "AnalysisResult field" | Rejected axios_error

text \<open>\<open>a || b\<close> on strings: the left operand when it is truthy.\<close>

definition or_str :: "string field \<Rightarrow> string field \<Rightarrow> string field" where
  "or_str a b = (if truthy_str a then a else b)"

text \<open>\<open>err.response?.data?.detail\<close>\<close>

definition response_detail :: "axios_error \<Rightarrow> string field" where
  "response_detail err =
     (case response err of
        Val resp \<Rightarrow> (case data resp of Val body \<Rightarrow> detail body | _ \<Rightarrow> Undefined)
      | _ \<Rightarrow> Undefined)"

text \<open>
  \<^verbatim>\<open>err.response?.data?.detail || err.message || 'An unknown error occurred.'\<close>
\<close>

definition errorMessage :: "axios_error \<Rightarrow> string field" where
  "errorMessage err =
     or_str (or_str (response_detail err) (message err)) (Val ''An unknown error occurred.'')"

text \<open>
  The rest of \<open>handleAnalyze\<close> runs when the request settles: \<open>setResult(response.data)\<close>
  or \<open>setError(errorMessage)\<close>, then \<open>setLoading(false)\<close> in the \<open>finally\<close> block. It reads
  no state. The updates of one continuation are taken as one step (React batches them
  into one render).
\<close>

fun handleAnalyze_settled :: "outcome \<Rightarrow> world \<Rightarrow> world" where
  "handleAnalyze_settled (Fulfilled body) w = w\<lparr>result := body, loading := False\<rparr>"
| "handleAnalyze_settled (Rejected err) w = w\<lparr>error := errorMessage err, loading := False\<rparr>"

definition handleReset :: "world \<Rightarrow> world" where
  "handleReset w =
     w\<lparr>file := Null, preview := Null, result := Null, loading := False, error := Null\<rparr>"

subsection \<open>What is rendered\<close>

text \<open>\<open>Upload\<close> shows the preview when there is one, the dropzone otherwise;
  \<open>isVideo\<close> is \<open>file?.type?.startsWith('video/')\<close>.\<close>

datatype upload_view = PreviewShown url bool | Dropzone

definition startsWith :: "string \<Rightarrow> string \<Rightarrow> bool" where
  "startsWith s p = (take (length p) s = p)"

definition Upload :: "url field \<Rightarrow> File field \<Rightarrow> upload_view" where
  "Upload pv f =
     (case pv of
        Val u \<Rightarrow> PreviewShown u (case f of Val x \<Rightarrow> startsWith (file_type x) ''video/'' | _ \<Rightarrow> False)
      | _ \<Rightarrow> Dropzone)"

text \<open>The element \<open>renderContent\<close> returns: the loading indicator, the \<open>Result\<close> component
  with its prop, or \<open>Upload\<close> with the Analyze button under it when a file is held.\<close>

datatype element = Loading_el | Result_el "AnalysisResult field" | Upload_el upload_view bool

definition renderContent :: "world \<Rightarrow> element" where
  "renderContent w =
     (if loading w then Loading_el
      else if truthy_obj (result w) then Result_el (result w)
      else Upload_el (Upload (preview w) (file w)) (truthy_obj (file w)))"

text \<open>The error banner stands above the content: \<open>{error && ...}\<close>. The stored error
  is a string here, as the contract types \<open>detail\<close>; what the page does with a stored
  error of another type is not modelled.\<close>

definition banner :: "world \<Rightarrow> string option" where
  "banner w = (case error w of Val s \<Rightarrow> (if s \<noteq> [] then Some s else None) | _ \<Rightarrow> None)"

subsection \<open>Events\<close>

text \<open>
  What can happen to the component: a drop on the dropzone (with the files the picker
  accepted), a click on Analyze, a click on the reset button of the result view, and the
  settling of the \<open>k\<close>-th request in flight.
\<close>

datatype event = Drop "File list" | AnalyzeClick | ResetClick | Settle nat outcome

definition remove_nth :: "nat \<Rightarrow> 'a list \<Rightarrow> 'a list" where
  "remove_nth k xs = take k xs @ drop (Suc k) xs"

text \<open>The handler an event runs. A request that is not in flight cannot settle.\<close>

fun fire :: "event \<Rightarrow> world \<Rightarrow> world" where
  "fire (Drop fs) w = onDrop fs w"
| "fire AnalyzeClick w = handleAnalyze w"
| "fire ResetClick w = handleReset w"
| "fire (Settle k out) w =
     (if k < length (in_flight w)
      then handleAnalyze_settled out (w\<lparr>in_flight := remove_nth k (in_flight w)\<rparr>)
      else w)"

text \<open>Handlers run in any order: the functions as they are written, whatever the page
  shows.\<close>

fun run :: "event list \<Rightarrow> world \<Rightarrow> world" where
  "run [] w = w"
| "run (e # es) w = run es (fire e w)"

text \<open>
  The events the rendered page offers: the dropzone is there when \<open>Upload\<close> is rendered
  without a preview, the Analyze button when \<open>Upload\<close> is rendered and a file is held
  (\<open>disabled={loading}\<close> is then false), the reset button when the result is rendered.
  A request in flight can settle at any time.
\<close>

fun offered :: "world \<Rightarrow> event \<Rightarrow> bool" where
  "offered w (Drop fs) = (case renderContent w of Upload_el Dropzone b \<Rightarrow> True | _ \<Rightarrow> False)"
| "offered w AnalyzeClick = (case renderContent w of Upload_el u b \<Rightarrow> b | _ \<Rightarrow> False)"
| "offered w ResetClick = (case renderContent w of Result_el r \<Rightarrow> True | _ \<Rightarrow> False)"
| "offered w (Settle k out) = (k < length (in_flight w))"

text \<open>A run driven through the page: each event is offered where it happens.\<close>

fun ui_run :: "event list \<Rightarrow> world \<Rightarrow> world option" where
  "ui_run [] w = Some w"
| "ui_run (e # es) w = (if offered w e then ui_run es (fire e w) else None)"

text \<open>The number of drops that select a file.\<close>

fun selections :: "event list \<Rightarrow> nat" where
  "selections [] = 0"
| "selections (Drop (f # fs) # es) = Suc (selections es)"
| "selections (e # es) = selections es"

section \<open>Example values and invariants\<close>

text \<open>The scenario's response with a \<open>real_probability\<close> added, and with its
  \<open>confidence\<close> missing.\<close>

definition result_with_real_probability :: AnalysisResult where
  "result_with_real_probability = scenario_result\<lparr>real_probability := Val (Fin (1 / 2))\<rparr>"

definition result_missing_confidence :: AnalysisResult where
  "result_missing_confidence = scenario_result\<lparr>confidence := Undefined\<rparr>"

text \<open>A rounding that moves every number but zero, by the full relative error.\<close>

definition rounding_up :: rounding where
  "rounding_up x = x + x / 2 ^ 53"

definition jpeg_2mb :: File where
  "jpeg_2mb = \<lparr>file_name = ''photo.jpg'', file_type = ''image/jpeg'', file_size = 2000000\<rparr>"

text \<open>A video one byte over 100 MiB.\<close>

definition video_over_limit :: File where
  "video_over_limit =
     \<lparr>file_name = ''clip.mp4'', file_type = ''video/mp4'', file_size = 100 * 2 ^ 20 + 1\<rparr>"

text \<open>What axios throws for HTTP 500 with the body \<^verbatim>\<open>{"detail":"model unavailable"}\<close>, and
  for the body \<^verbatim>\<open>{"detail":""}\<close>.\<close>

definition error_500 :: axios_error where
  "error_500 =
     \<lparr>response = Val \<lparr>status = 500, data = Val \<lparr>detail = Val ''model unavailable''\<rparr>\<rparr>,
      message = Val ''Request failed with status code 500''\<rparr>"

definition error_500_empty_detail :: axios_error where
  "error_500_empty_detail =
     \<lparr>response = Val \<lparr>status = 500, data = Val \<lparr>detail = Val []\<rparr>\<rparr>,
      message = Val ''Request failed with status code 500''\<rparr>"

text \<open>In a run driven through the page, the only request in flight is the one of the
  held file, while \<open>loading\<close> is set; nothing is in flight otherwise.\<close>

definition in_flight_guard :: "world \<Rightarrow> bool" where
  "in_flight_guard w =
     (if loading w
      then (case file w of Val f \<Rightarrow> in_flight w = [f] | _ \<Rightarrow> False) \<and>
           result w = Null \<and> error w = Null
      else in_flight w = [])"

definition quiet_while_loading :: "world \<Rightarrow> bool" where
  "quiet_while_loading w = (if loading w then result w = Null \<and> error w = Null else True)"

text \<open>The file and its preview are set and cleared together, and a preview is the newest
  object URL.\<close>

definition one_selection :: "world \<Rightarrow> bool" where
  "one_selection w =
     (case preview w of
        Val u \<Rightarrow> Suc u = length (object_urls w) \<and> file w = Val (object_urls w ! u)
      | _ \<Rightarrow> file w = Null)"

section \<open>Auxiliary facts\<close>

lemma rnd_close:
  assumes "standard_model rnd" and "\<bar>x\<bar> \<le> K" and "1 \<le> K" and "K \<le> 1000"
  shows "\<bar>rnd x - x\<bar> \<le> K / 1000000000"
proof -
  have "(1000::real) \<le> 2 ^ 1023" by simp
  with assms(2,4) have "\<bar>x\<bar> \<le> 2 ^ 1023" by linarith
  with assms(1) have "\<bar>rnd x - x\<bar> \<le> \<bar>x\<bar> / 2 ^ 53 + 1 / 2 ^ 1074"
    by (simp add: standard_model_def)
  moreover have "\<bar>x\<bar> / 2 ^ 53 \<le> K / 2 ^ 53"
    using assms(2) by (simp add: divide_right_mono)
  moreover have "(1::real) / 2 ^ 1074 \<le> 1 / 2 ^ 53"
    by (intro divide_left_mono power_increasing) simp_all
  moreover have "(1::real) / 2 ^ 53 \<le> K / 2 ^ 53"
    using assms(3) by (simp add: divide_right_mono)
  moreover have "K / 2 ^ 53 + K / 2 ^ 53 \<le> K / 1000000000"
    using assms(3) by simp
  ultimately show ?thesis by linarith
qed

lemma standard_model_rounding_up: "standard_model rounding_up"
  by (simp add: standard_model_def rounding_up_def)

text \<open>The error of the two percentages, operation by operation: every intermediate value
  stays below a few hundred, so each rounding moves it by less than \<open>10 ^ - 6\<close>.\<close>

lemma percentages_close:
  assumes std: "standard_model rnd"
    and c: "confidence r = Val (Fin c)" "0 \<le> c" "c \<le> 1"
    and b: "is_ai r = Val b"
    and na: "nullish (ai_probability r)" and nr: "nullish (real_probability r)"
  shows "\<exists>a p. aiProbability_of rnd r = Fin a \<and> realProbability_of rnd r = Fin p \<and>
           \<bar>a + p - 100\<bar> \<le> 1 / 10000"
proof -
  define t where "t = rnd (1 - c)"
  define a where "a = (if b then rnd (c * 100) else rnd (t * 100))"
  define d where "d = rnd (100 - a)"
  define q where "q = rnd (d / 100)"
  define p where "p = rnd (q * 100)"
  have ai: "aiProbability_of rnd r = Fin a"
    using c b na by (cases "ai_probability r") (simp_all add: aiProbability_of_def a_def t_def)
  have re: "realProbability_of rnd r = Fin p"
    using nr by (cases "real_probability r")
      (simp_all add: realProbability_of_def ai p_def q_def d_def)
  have "\<bar>1 - c\<bar> \<le> 1" using c by linarith
  then have t1: "\<bar>t - (1 - c)\<bar> \<le> 1 / 1000000000"
    unfolding t_def by (rule rnd_close [OF std]) simp_all
  have a1: "\<bar>a\<bar> \<le> 101"
  proof (cases b)
    case True
    have "\<bar>c * 100\<bar> \<le> 100" using c by linarith
    then have "\<bar>rnd (c * 100) - c * 100\<bar> \<le> 100 / 1000000000"
      by (rule rnd_close [OF std]) simp_all
    moreover have "a = rnd (c * 100)" using True by (simp add: a_def)
    ultimately show ?thesis using c by linarith
  next
    case False
    have "\<bar>t * 100\<bar> \<le> 200" using t1 c by linarith
    then have "\<bar>rnd (t * 100) - t * 100\<bar> \<le> 200 / 1000000000"
      by (rule rnd_close [OF std]) simp_all
    moreover have "a = rnd (t * 100)" using False by (simp add: a_def)
    ultimately show ?thesis using t1 c by linarith
  qed
  have "\<bar>100 - a\<bar> \<le> 201" using a1 by linarith
  then have d1: "\<bar>d - (100 - a)\<bar> \<le> 201 / 1000000000"
    unfolding d_def by (rule rnd_close [OF std]) simp_all
  have "\<bar>d / 100\<bar> \<le> 3" using a1 d1 by linarith
  then have q1: "\<bar>q - d / 100\<bar> \<le> 3 / 1000000000"
    unfolding q_def by (rule rnd_close [OF std]) simp_all
  have "\<bar>q * 100\<bar> \<le> 400" using a1 d1 q1 by linarith
  then have p1: "\<bar>p - q * 100\<bar> \<le> 400 / 1000000000"
    unfolding p_def by (rule rnd_close [OF std]) simp_all
  have "\<bar>a + p - 100\<bar> \<le> 1 / 10000"
    using d1 q1 p1 by linarith
  with ai re show ?thesis by blast
qed

lemma offered_iff:
  "offered w (Drop fs) \<longleftrightarrow> \<not> loading w \<and> \<not> truthy_obj (result w) \<and> \<not> truthy_obj (preview w)"
  "offered w AnalyzeClick \<longleftrightarrow> \<not> loading w \<and> \<not> truthy_obj (result w) \<and> truthy_obj (file w)"
  "offered w ResetClick \<longleftrightarrow> \<not> loading w \<and> truthy_obj (result w)"
  by (cases "preview w"; simp add: renderContent_def Upload_def)+

lemma in_flight_guard_init: "in_flight_guard init"
  by (simp add: in_flight_guard_def init_def)

lemma in_flight_guard_fire:
  assumes "in_flight_guard w" and "offered w e"
  shows "in_flight_guard (fire e w)"
proof (cases e)
  case (Drop fs)
  with assms show ?thesis
    by (cases fs) (auto simp: offered_iff in_flight_guard_def handleFileSelect_def
        simp del: offered.simps split: if_splits field.splits)
next
  case AnalyzeClick
  with assms show ?thesis
    by (cases "file w") (auto simp: offered_iff in_flight_guard_def handleAnalyze_def
        simp del: offered.simps split: if_splits)
next
  case ResetClick
  with assms show ?thesis
    by (auto simp: offered_iff in_flight_guard_def handleReset_def
        simp del: offered.simps split: if_splits)
next
  case (Settle k out)
  with assms show ?thesis
    by (cases out; cases "file w")
       (auto simp: in_flight_guard_def remove_nth_def split: if_splits)
qed

lemma in_flight_guard_ui_run:
  "in_flight_guard w \<Longrightarrow> ui_run es w = Some w' \<Longrightarrow> in_flight_guard w'"
proof (induction es arbitrary: w)
  case Nil
  then show ?case by simp
next
  case (Cons e es)
  then show ?case
    by (cases "offered w e") (auto intro: in_flight_guard_fire)
qed

lemma quiet_fire: "quiet_while_loading w \<Longrightarrow> quiet_while_loading (fire e w)"
proof (cases e)
  case (Drop fs)
  assume "quiet_while_loading w"
  with Drop show ?thesis
    by (cases fs) (simp_all add: quiet_while_loading_def handleFileSelect_def split: if_splits)
next
  case AnalyzeClick
  assume "quiet_while_loading w"
  with AnalyzeClick show ?thesis
    by (cases "file w") (simp_all add: quiet_while_loading_def handleAnalyze_def)
next
  case ResetClick
  then show ?thesis by (simp add: quiet_while_loading_def handleReset_def)
next
  case (Settle k out)
  assume "quiet_while_loading w"
  with Settle show ?thesis
    by (cases out) (simp_all add: quiet_while_loading_def)
qed

lemma quiet_run: "quiet_while_loading w \<Longrightarrow> quiet_while_loading (run es w)"
  by (induction es arbitrary: w) (simp_all add: quiet_fire)

lemma object_urls_fire:
  "object_urls (fire e w) = object_urls w @ (case e of Drop (f # fs) \<Rightarrow> [f] | _ \<Rightarrow> [])"
proof (cases e)
  case (Drop fs)
  then show ?thesis by (cases fs) (simp_all add: handleFileSelect_def)
next
  case AnalyzeClick
  then show ?thesis by (cases "file w") (simp_all add: handleAnalyze_def)
next
  case ResetClick
  then show ?thesis by (simp add: handleReset_def)
next
  case (Settle k out)
  then show ?thesis by (cases out) simp_all
qed

lemma object_urls_run:
  "\<exists>new. object_urls (run es w) = object_urls w @ new \<and> length new = selections es"
proof (induction es arbitrary: w)
  case Nil
  then show ?case by simp
next
  case (Cons e es)
  obtain new where new: "object_urls (run es (fire e w)) = object_urls (fire e w) @ new"
    "length new = selections es"
    using Cons.IH by blast
  show ?case
  proof (cases e)
    case (Drop fs)
    then show ?thesis using new by (cases fs) (simp_all add: handleFileSelect_def)
  next
    case AnalyzeClick
    then show ?thesis using new object_urls_fire [of e w] by simp
  next
    case ResetClick
    then show ?thesis using new object_urls_fire [of e w] by simp
  next
    case (Settle k out)
    then show ?thesis using new object_urls_fire [of e w] by simp
  qed
qed

lemma one_selection_fire: "one_selection w \<Longrightarrow> one_selection (fire e w)"
proof (cases e)
  case (Drop fs)
  assume "one_selection w"
  with Drop show ?thesis
    by (cases fs) (simp_all add: one_selection_def handleFileSelect_def)
next
  case AnalyzeClick
  assume "one_selection w"
  with AnalyzeClick show ?thesis
    by (cases "file w"; cases "preview w") (simp_all add: one_selection_def handleAnalyze_def)
next
  case ResetClick
  then show ?thesis by (simp add: one_selection_def handleReset_def)
next
  case (Settle k out)
  assume "one_selection w"
  with Settle show ?thesis
    by (cases out; cases "preview w") (simp_all add: one_selection_def)
qed

lemma one_selection_run: "one_selection w \<Longrightarrow> one_selection (run es w)"
  by (induction es arbitrary: w) (simp_all add: one_selection_fire)

section \<open>The derived probabilities and the reliability tier\<close>

text \<open>
  Claim C1. The AI percentage is \<open>ai_probability * 100\<close> when that field is present;
  otherwise it is \<open>confidence * 100\<close> when \<open>is_ai\<close> is true and \<open>(1 - confidence) * 100\<close>
  when it is not. It is the value \<open>Result\<close> shows. For the scenario's response
  (\<open>confidence\<close> 0.97, \<open>is_ai\<close> true, no \<open>ai_probability\<close>) it is the rounding of the
  exact product 97, a number that a double holds exactly; in exact arithmetic it is 97.
\<close>

theorem aiProbability_fallback_order:
  "aiProbability_of rnd r =
     (case ai_probability r of
        Val p \<Rightarrow> mul rnd p (Fin 100)
      | _ \<Rightarrow>
          if truthy (is_ai r) then mul rnd (ToNumber (confidence r)) (Fin 100)
          else mul rnd (sub rnd (Fin 1) (ToNumber (confidence r))) (Fin 100)) \<and>
   (\<exists>v. Result rnd (Val r) = Inr v \<and> aiProbability v = aiProbability_of rnd r) \<and>
   aiProbability_of rnd scenario_result = Fin (rnd 97) \<and>
   aiProbability_of (\<lambda>x. x) scenario_result = Fin 97"
  by (cases "ai_probability r") (simp_all add: aiProbability_of_def scenario_result_def)

text \<open>
  Claim C2, as stated, fails: with \<open>ai_probability\<close> absent and \<open>real_probability\<close>
  present, the real percentage is read off the response and has nothing to do with the
  AI percentage. For confidence 0.97, \<open>is_ai\<close> true and \<open>real_probability\<close> 0.5 the two
  percentages are 97 and 50 in exact arithmetic, and no rounding of the standard model
  brings their sum within the tolerance of 100.
\<close>

theorem probabilities_sum_counterexample:
  "well_formed result_with_real_probability \<and>
   ai_probability result_with_real_probability = Undefined \<and>
   aiProbability_of (\<lambda>x. x) result_with_real_probability = Fin 97 \<and>
   realProbability_of (\<lambda>x. x) result_with_real_probability = Fin 50 \<and>
   \<not> \<bar>97 + 50 - 100\<bar> \<le> (1 / 10000 :: real) \<and>
   \<not> (\<exists>rnd a p. standard_model rnd \<and>
        aiProbability_of rnd result_with_real_probability = Fin a \<and>
        realProbability_of rnd result_with_real_probability = Fin p \<and>
        \<bar>a + p - 100\<bar> \<le> 1 / 10000)"
proof -
  have "\<not> \<bar>a + p - 100\<bar> \<le> 1 / 10000"
    if std: "standard_model rnd"
      and a: "aiProbability_of rnd result_with_real_probability = Fin a"
      and p: "realProbability_of rnd result_with_real_probability = Fin p"
    for rnd a p
  proof -
    have "a = rnd 97" "p = rnd 50"
      using a p
      by (simp_all add: result_with_real_probability_def scenario_result_def
          aiProbability_of_def realProbability_of_def)
    moreover have "\<bar>rnd 97 - 97\<bar> \<le> 100 / 1000000000"
      by (rule rnd_close [OF std]) simp_all
    moreover have "\<bar>rnd 50 - 50\<bar> \<le> 100 / 1000000000"
      by (rule rnd_close [OF std]) simp_all
    ultimately show ?thesis by linarith
  qed
  then show ?thesis
    by (auto simp: result_with_real_probability_def scenario_result_def well_formed_def
        aiProbability_of_def realProbability_of_def)
qed

text \<open>
  Claim C2, amended. For every well-formed response in which \<open>ai_probability\<close> and
  \<open>real_probability\<close> are both absent, the two percentages are numbers and sum to 100
  within \<open>10 ^ - 4\<close>, under any rounding that meets the standard model.
\<close>

theorem probabilities_sum_to_100:
  assumes "standard_model rnd"
    and "well_formed r"
    and "nullish (ai_probability r)"
    and "nullish (real_probability r)"
  shows "\<exists>a p. aiProbability_of rnd r = Fin a \<and> realProbability_of rnd r = Fin p \<and>
           \<bar>a + p - 100\<bar> \<le> 1 / 10000"
proof -
  from assms(2) obtain c b where "confidence r = Val (Fin c)" "0 \<le> c" "c \<le> 1"
    "is_ai r = Val b"
    by (auto simp: well_formed_def split: field.splits number.splits)
  then show ?thesis
    using percentages_close [OF assms(1) _ _ _ _ assms(3) assms(4)] by blast
qed

theorem probabilities_sum_to_100_witness:
  "standard_model rounding_up \<and> well_formed scenario_result \<and>
   nullish (ai_probability scenario_result) \<and> nullish (real_probability scenario_result) \<and>
   (\<exists>a p. aiProbability_of rounding_up scenario_result = Fin a \<and>
      realProbability_of rounding_up scenario_result = Fin p \<and>
      \<bar>a + p - 100\<bar> \<le> 1 / 10000)"
proof -
  have h: "well_formed scenario_result" "nullish (ai_probability scenario_result)"
    "nullish (real_probability scenario_result)"
    by (simp_all add: scenario_result_def well_formed_def)
  from probabilities_sum_to_100 [OF standard_model_rounding_up h]
    standard_model_rounding_up h
  show ?thesis by blast
qed

text \<open>
  Claim C3. The tier is a step function of the confidence percentage, with the cut points
  99.9 and 90: above 99.9 it is VeryHigh, from 90 to 99.9 (both included) Suspicious,
  below 90 Low. So 99.95 is VeryHigh, 99.9 and 90 are Suspicious, 89.999 is Low. The
  percentage \<open>Result\<close> feeds it is \<open>confidence * 100\<close>. A decimal that is not a double
  stands for the double next to it, in the source as in the examples.
\<close>

theorem getReliability_cut_points:
  assumes "standard_model rnd"
  shows "(x > rnd (999 / 10) \<longrightarrow> getReliability rnd (Fin x) = VeryHigh) \<and>
         (90 \<le> x \<and> x \<le> rnd (999 / 10) \<longrightarrow> getReliability rnd (Fin x) = Suspicious) \<and>
         (x < 90 \<longrightarrow> getReliability rnd (Fin x) = Low) \<and>
         getReliability rnd (Fin (rnd (9995 / 100))) = VeryHigh \<and>
         getReliability rnd (Fin (rnd (999 / 10))) = Suspicious \<and>
         getReliability rnd (Fin 90) = Suspicious \<and>
         getReliability rnd (Fin (rnd (89999 / 1000))) = Low \<and>
         (\<exists>v. Result rnd (Val r) = Inr v \<and>
            confidenceValue v = mul rnd (ToNumber (confidence r)) (Fin 100) \<and>
            reliability v = getReliability rnd (confidenceValue v))"
proof -
  have "\<bar>rnd (999 / 10) - 999 / 10\<bar> \<le> 100 / 1000000000"
    by (rule rnd_close [OF assms]) simp_all
  then have cut: "90 < rnd (999 / 10)" "rnd (999 / 10) < 9992 / 100"
    by linarith+
  have "\<bar>rnd (9995 / 100) - 9995 / 100\<bar> \<le> 100 / 1000000000"
    by (rule rnd_close [OF assms]) simp_all
  then have above: "9992 / 100 < rnd (9995 / 100)"
    by linarith
  have "\<bar>rnd (89999 / 1000) - 89999 / 1000\<bar> \<le> 100 / 1000000000"
    by (rule rnd_close [OF assms]) simp_all
  then have below: "rnd (89999 / 1000) < 90"
    by linarith
  have 1: "x > rnd (999 / 10) \<longrightarrow> getReliability rnd (Fin x) = VeryHigh"
    by (simp add: getReliability_def)
  have 2: "90 \<le> x \<and> x \<le> rnd (999 / 10) \<longrightarrow> getReliability rnd (Fin x) = Suspicious"
    by (simp add: getReliability_def)
  have 3: "x < 90 \<longrightarrow> getReliability rnd (Fin x) = Low"
    using cut by (simp add: getReliability_def)
  have 4: "getReliability rnd (Fin (rnd (9995 / 100))) = VeryHigh"
    using cut above by (simp add: getReliability_def)
  have 5: "getReliability rnd (Fin (rnd (999 / 10))) = Suspicious"
    using cut by (simp add: getReliability_def)
  have 6: "getReliability rnd (Fin 90) = Suspicious"
    using cut by (simp add: getReliability_def)
  have 7: "getReliability rnd (Fin (rnd (89999 / 1000))) = Low"
    using cut below by (simp add: getReliability_def)
  have 8: "\<exists>v. Result rnd (Val r) = Inr v \<and>
      confidenceValue v = mul rnd (ToNumber (confidence r)) (Fin 100) \<and>
      reliability v = getReliability rnd (confidenceValue v)"
    by (simp add: confidenceValue_of_def)
  from 1 2 3 4 5 6 7 8 show ?thesis by blast
qed

text \<open>In exact arithmetic the cut points are \<open>99.9\<close> and \<open>90\<close> themselves.\<close>

theorem getReliability_cut_points_witness:
  "standard_model (\<lambda>x. x) \<and>
   (9995 / 100 :: real) > 999 / 10 \<and> getReliability (\<lambda>x. x) (Fin (9995 / 100)) = VeryHigh \<and>
   (90::real) \<le> 999 / 10 \<and> getReliability (\<lambda>x. x) (Fin (999 / 10)) = Suspicious \<and>
   getReliability (\<lambda>x. x) (Fin 90) = Suspicious \<and>
   (89999 / 1000 :: real) < 90 \<and> getReliability (\<lambda>x. x) (Fin (89999 / 1000)) = Low"
proof -
  have s: "standard_model (\<lambda>x. x)"
    by (simp add: standard_model_def)
  from getReliability_cut_points [OF s, of "9995 / 100"]
    getReliability_cut_points [OF s, of "999 / 10"]
    getReliability_cut_points [OF s, of "89999 / 1000"] s
  show ?thesis by simp
qed

section \<open>Selecting a file\<close>

text \<open>
  Claim C4, as stated, fails: nothing in the client looks at the size of a file. The
  dropzone is configured with the accepted types and \<open>multiple: false\<close> only, and
  \<open>handleFileSelect\<close> stores what it is given. A video of 100 MiB and one byte, dropped
  on the empty page, becomes the held file and no error is set; given to
  \<open>handleFileSelect\<close> while the 2 MB image is held, it replaces the image.
\<close>

theorem oversized_select_counterexample:
  "file_type video_over_limit = ''video/mp4'' \<and>
   file_size video_over_limit > 100 * 2 ^ 20 \<and>
   ui_run [Drop [video_over_limit]] init = Some (handleFileSelect video_over_limit init) \<and>
   file (handleFileSelect video_over_limit init) = Val video_over_limit \<and>
   error (handleFileSelect video_over_limit init) = Null \<and>
   file (handleFileSelect jpeg_2mb init) = Val jpeg_2mb \<and>
   file (handleFileSelect video_over_limit (handleFileSelect jpeg_2mb init)) =
     Val video_over_limit \<and>
   error (handleFileSelect video_over_limit (handleFileSelect jpeg_2mb init)) = Null \<and>
   video_over_limit \<noteq> jpeg_2mb"
  by (simp add: video_over_limit_def jpeg_2mb_def handleFileSelect_def init_def
      renderContent_def Upload_def)

text \<open>
  Claim C4, amended. Selecting never fails on size: for every file the picker hands over,
  of any size, \<open>handleFileSelect\<close> makes it the held file, clears the error and installs a
  new object URL as the preview; a drop selects the first accepted file.
\<close>

theorem handleFileSelect_any_size:
  "file (handleFileSelect f w) = Val f \<and>
   error (handleFileSelect f w) = Null \<and>
   preview (handleFileSelect f w) = Val (length (object_urls w)) \<and>
   object_urls (handleFileSelect f w) = object_urls w @ [f] \<and>
   onDrop (f # fs) w = handleFileSelect f w"
  by (simp add: handleFileSelect_def)

section \<open>Submitting\<close>

text \<open>
  Claim C5, as stated, fails: \<open>handleAnalyze\<close> checks only that a file is held. Called a
  second time while the first request is in flight, it posts again and sets no error.
\<close>

theorem double_submit_counterexample:
  "loading (run [Drop [jpeg_2mb], AnalyzeClick] init) \<and>
   posts (run [Drop [jpeg_2mb], AnalyzeClick] init) = 1 \<and>
   posts (run [Drop [jpeg_2mb], AnalyzeClick, AnalyzeClick] init) = 2 \<and>
   in_flight (run [Drop [jpeg_2mb], AnalyzeClick, AnalyzeClick] init) =
     [jpeg_2mb, jpeg_2mb] \<and>
   error (run [Drop [jpeg_2mb], AnalyzeClick, AnalyzeClick] init) = Null"
  by (simp add: init_def handleFileSelect_def handleAnalyze_def)

text \<open>
  Claim C5, amended. The guard is in the page: while \<open>loading\<close> is set the content is
  the loading indicator and no Analyze button is offered. So in every run driven through
  the page exactly one request is in flight while \<open>loading\<close> is set, and none otherwise.
  \<open>handleAnalyze\<close> itself, in any state \<open>v\<close>, posts whenever a file is held and sets no
  error.
\<close>

theorem one_request_in_flight:
  assumes "ui_run es init = Some w"
  shows "length (in_flight w) = (if loading w then 1 else 0) \<and>
         (loading w \<longrightarrow> renderContent w = Loading_el \<and> \<not> offered w AnalyzeClick) \<and>
         (case file v of
            Val f \<Rightarrow> posts (handleAnalyze v) = Suc (posts v) \<and> error (handleAnalyze v) = Null
          | _ \<Rightarrow> handleAnalyze v = v)"
proof -
  have "in_flight_guard w"
    using in_flight_guard_ui_run [OF in_flight_guard_init assms] .
  then have "length (in_flight w) = (if loading w then 1 else 0) \<and>
      (loading w \<longrightarrow> renderContent w = Loading_el \<and> \<not> offered w AnalyzeClick)"
    by (auto simp: in_flight_guard_def renderContent_def split: if_splits field.splits)
  moreover have "case file v of
      Val f \<Rightarrow> posts (handleAnalyze v) = Suc (posts v) \<and> error (handleAnalyze v) = Null
    | _ \<Rightarrow> handleAnalyze v = v"
    by (cases "file v") (simp_all add: handleAnalyze_def)
  ultimately show ?thesis by blast
qed

theorem one_request_in_flight_witness:
  "ui_run [Drop [jpeg_2mb], AnalyzeClick] init =
     Some (run [Drop [jpeg_2mb], AnalyzeClick] init) \<and>
   loading (run [Drop [jpeg_2mb], AnalyzeClick] init) \<and>
   length (in_flight (run [Drop [jpeg_2mb], AnalyzeClick] init)) = 1 \<and>
   renderContent (run [Drop [jpeg_2mb], AnalyzeClick] init) = Loading_el \<and>
   \<not> offered (run [Drop [jpeg_2mb], AnalyzeClick] init) AnalyzeClick"
proof -
  have r: "ui_run [Drop [jpeg_2mb], AnalyzeClick] init =
      Some (run [Drop [jpeg_2mb], AnalyzeClick] init)"
    by (simp add: init_def handleFileSelect_def handleAnalyze_def renderContent_def Upload_def)
  have l: "loading (run [Drop [jpeg_2mb], AnalyzeClick] init)"
    by (simp add: init_def handleFileSelect_def handleAnalyze_def)
  from one_request_in_flight [OF r, of init] r l show ?thesis by simp
qed

text \<open>
  Claim C6, as stated, fails: a request carries no generation tag, and the continuation
  of \<open>handleAnalyze\<close> stores what the request settles with whatever happened since. After
  select, submit and \<open>handleReset\<close>, the state is cleared; the response that comes then
  is stored as the result, and an error that comes then is stored as the error.
\<close>

theorem stale_resolution_counterexample:
  "result (run [Drop [jpeg_2mb], AnalyzeClick, ResetClick] init) = Null \<and>
   file (run [Drop [jpeg_2mb], AnalyzeClick, ResetClick] init) = Null \<and>
   result (run [Drop [jpeg_2mb], AnalyzeClick, ResetClick,
                Settle 0 (Fulfilled (Val scenario_result))] init) = Val scenario_result \<and>
   error (run [Drop [jpeg_2mb], AnalyzeClick, ResetClick,
               Settle 0 (Rejected error_500)] init) = Val ''model unavailable''"
  by (simp add: init_def handleFileSelect_def handleAnalyze_def handleReset_def remove_nth_def
      errorMessage_def or_str_def response_detail_def error_500_def)

text \<open>
  Claim C6, amended. No resolution is discarded: a settled request stores its result or
  its error, in any state \<open>v\<close>. What keeps a resolution from landing in a changed state is
  the page: in every run driven through it, while a request is in flight \<open>loading\<close> is
  set, neither the reset button nor the dropzone is offered, result and error are null and
  the held file is the one that was posted.
\<close>

theorem no_reset_while_in_flight:
  assumes "ui_run es init = Some w" and "in_flight w \<noteq> []"
  shows "loading w \<and> \<not> offered w ResetClick \<and> \<not> offered w (Drop fs) \<and>
         result w = Null \<and> error w = Null \<and> file w = Val (hd (in_flight w)) \<and>
         result (handleAnalyze_settled (Fulfilled body) v) = body \<and>
         error (handleAnalyze_settled (Rejected err) v) = errorMessage err"
proof -
  have "in_flight_guard w"
    using in_flight_guard_ui_run [OF in_flight_guard_init assms(1)] .
  with assms(2) show ?thesis
    by (auto simp: in_flight_guard_def renderContent_def split: if_splits field.splits)
qed

theorem no_reset_while_in_flight_witness:
  "ui_run [Drop [jpeg_2mb], AnalyzeClick] init =
     Some (run [Drop [jpeg_2mb], AnalyzeClick] init) \<and>
   in_flight (run [Drop [jpeg_2mb], AnalyzeClick] init) \<noteq> [] \<and>
   loading (run [Drop [jpeg_2mb], AnalyzeClick] init) \<and>
   \<not> offered (run [Drop [jpeg_2mb], AnalyzeClick] init) ResetClick \<and>
   \<not> offered (run [Drop [jpeg_2mb], AnalyzeClick] init) (Drop [video_over_limit]) \<and>
   file (run [Drop [jpeg_2mb], AnalyzeClick] init) = Val jpeg_2mb"
proof -
  have r: "ui_run [Drop [jpeg_2mb], AnalyzeClick] init =
      Some (run [Drop [jpeg_2mb], AnalyzeClick] init)"
    by (simp add: init_def handleFileSelect_def handleAnalyze_def renderContent_def Upload_def)
  have n: "in_flight (run [Drop [jpeg_2mb], AnalyzeClick] init) = [jpeg_2mb]"
    by (simp add: init_def handleFileSelect_def handleAnalyze_def)
  then have n': "in_flight (run [Drop [jpeg_2mb], AnalyzeClick] init) \<noteq> []"
    by simp
  from no_reset_while_in_flight [OF r n', of "[video_over_limit]"] r n
  show ?thesis by simp
qed

text \<open>
  Claim C7, as stated, fails: the operands are joined by \<open>||\<close>, which skips an empty
  string as it skips a missing one. A 500 response whose body supplies the detail \<open>""\<close>
  gives the text of the transport error, not the supplied detail.
\<close>

theorem empty_detail_counterexample:
  "response_detail error_500_empty_detail = Val [] \<and>
   errorMessage error_500_empty_detail = Val ''Request failed with status code 500''"
  by (simp add: error_500_empty_detail_def response_detail_def errorMessage_def or_str_def)

text \<open>
  Claim C7, amended. The stored message is the detail of the response when one is
  supplied and is not empty, else the text of the transport error when there is one and
  it is not empty, else \<open>An unknown error occurred.\<close>; it is never empty. HTTP 500 with
  the body \<^verbatim>\<open>{"detail":"model unavailable"}\<close> gives \<open>model unavailable\<close>.
\<close>

theorem errorMessage_preference:
  "errorMessage err =
     (if truthy_str (response_detail err) then response_detail err
      else if truthy_str (message err) then message err
      else Val ''An unknown error occurred.'') \<and>
   truthy_str (errorMessage err) \<and>
   error (handleAnalyze_settled (Rejected err) w) = errorMessage err \<and>
   errorMessage error_500 = Val ''model unavailable''"
  by (simp add: errorMessage_def or_str_def error_500_def response_detail_def)

section \<open>Interpreting the response\<close>

text \<open>
  Claim C8, as stated, fails in its second half: the body of a 2xx response is stored as
  the result without a look at its shape. For the scenario's response without its
  \<open>confidence\<close>, the run select, submit, settle ends with no error and with the body as
  the result; the content of the page is the \<open>Result\<close> component on that body, and the
  view it computes has \<open>NaN\<close> as confidence and AI percentage and the tier Low.
\<close>

theorem missing_confidence_counterexample:
  "\<not> well_formed result_missing_confidence \<and>
   ui_run [Drop [jpeg_2mb], AnalyzeClick,
           Settle 0 (Fulfilled (Val result_missing_confidence))] init =
     Some (run [Drop [jpeg_2mb], AnalyzeClick,
                Settle 0 (Fulfilled (Val result_missing_confidence))] init) \<and>
   error (run [Drop [jpeg_2mb], AnalyzeClick,
               Settle 0 (Fulfilled (Val result_missing_confidence))] init) = Null \<and>
   result (run [Drop [jpeg_2mb], AnalyzeClick,
                Settle 0 (Fulfilled (Val result_missing_confidence))] init) =
     Val result_missing_confidence \<and>
   renderContent (run [Drop [jpeg_2mb], AnalyzeClick,
                       Settle 0 (Fulfilled (Val result_missing_confidence))] init) =
     Result_el (Val result_missing_confidence) \<and>
   (case Result (\<lambda>x. x) (Val result_missing_confidence) of
      Inr v \<Rightarrow> confidenceValue v = NaN \<and> aiProbability v = NaN \<and> reliability v = Low
    | Inl e \<Rightarrow> False)"
  by (simp add: result_missing_confidence_def scenario_result_def well_formed_def init_def
      handleFileSelect_def handleAnalyze_def remove_nth_def renderContent_def Upload_def
      confidenceValue_of_def aiProbability_of_def getReliability_def)

text \<open>
  Claim C8, amended. Interpretation is total: \<open>Result\<close> yields a view without failing for
  every response object whose present fields have the types of the contract, well-formed
  or with required fields missing. A 2xx response that misses a required field is not
  rejected: a fulfilled request stores its body as the result and leaves the error as it
  is, the content of the page is then the \<open>Result\<close> component on that body, and a missing
  \<open>confidence\<close> is read as \<open>NaN\<close>, which falls into the tier Low.
\<close>

theorem Result_total_unvalidated:
  "(\<exists>v. Result rnd (Val r) = Inr v) \<and>
   result (handleAnalyze_settled (Fulfilled body) w) = body \<and>
   error (handleAnalyze_settled (Fulfilled body) w) = error w \<and>
   renderContent (handleAnalyze_settled (Fulfilled (Val r)) w) = Result_el (Val r) \<and>
   confidenceValue_of rnd (r\<lparr>confidence := Undefined\<rparr>) = NaN \<and>
   getReliability rnd NaN = Low"
  by (simp add: renderContent_def confidenceValue_of_def getReliability_def)

section \<open>Preview handles\<close>

text \<open>
  Claim C9, as stated, fails: the client creates object URLs and never revokes one. After
  select, submit, a response and reset, no preview is held and the URL made for the image
  is still in the store; selecting the next file adds a second URL beside it.
\<close>

theorem preview_handle_leak_counterexample:
  "ui_run [Drop [jpeg_2mb], AnalyzeClick, Settle 0 (Fulfilled (Val scenario_result)),
           ResetClick] init =
     Some (run [Drop [jpeg_2mb], AnalyzeClick, Settle 0 (Fulfilled (Val scenario_result)),
                ResetClick] init) \<and>
   preview (run [Drop [jpeg_2mb], AnalyzeClick, Settle 0 (Fulfilled (Val scenario_result)),
                 ResetClick] init) = Null \<and>
   object_urls (run [Drop [jpeg_2mb], AnalyzeClick,
                     Settle 0 (Fulfilled (Val scenario_result)), ResetClick] init) =
     [jpeg_2mb] \<and>
   preview (run [Drop [jpeg_2mb], AnalyzeClick, Settle 0 (Fulfilled (Val scenario_result)),
                 ResetClick, Drop [video_over_limit]] init) = Val 1 \<and>
   object_urls (run [Drop [jpeg_2mb], AnalyzeClick,
                     Settle 0 (Fulfilled (Val scenario_result)), ResetClick,
                     Drop [video_over_limit]] init) = [jpeg_2mb, video_over_limit]"
  by (simp add: init_def handleFileSelect_def handleAnalyze_def handleReset_def remove_nth_def
      renderContent_def Upload_def)

text \<open>
  Claim C9, amended. No handler releases a preview handle: over any sequence of handler
  calls the store of object URLs keeps every entry it had and gains one per selection,
  and reset leaves the store as it is. At most one selection is held at any time: the
  file and the preview are set and cleared together, and a preview that is held is the
  newest URL of the store and points to the held file.
\<close>

theorem object_urls_never_released:
  "(\<exists>new. object_urls (run es w) = object_urls w @ new \<and> length new = selections es) \<and>
   object_urls (handleReset w) = object_urls w \<and>
   (case preview (run es init) of
      Val u \<Rightarrow> Suc u = length (object_urls (run es init)) \<and>
               file (run es init) = Val (object_urls (run es init) ! u)
    | _ \<Rightarrow> file (run es init) = Null)"
proof -
  have "one_selection init" by (simp add: one_selection_def init_def)
  then have "one_selection (run es init)" by (rule one_selection_run)
  then show ?thesis
    using object_urls_run [of es w] by (simp add: one_selection_def handleReset_def)
qed

section \<open>Loading\<close>

text \<open>
  Claim C10. Whenever \<open>loading\<close> is set, the stored result and the stored error are null,
  after any sequence of handler calls from the initial state; the content is then the
  loading indicator and there is no error banner. \<open>handleAnalyze\<close>, when a file is held,
  clears both as it sets \<open>loading\<close> and posts the request.
\<close>

theorem loading_clears_result_and_error:
  "(loading (run es init) \<longrightarrow>
      result (run es init) = Null \<and> error (run es init) = Null \<and>
      renderContent (run es init) = Loading_el \<and> banner (run es init) = None) \<and>
   (truthy_obj (file w) \<longrightarrow>
      loading (handleAnalyze w) \<and> result (handleAnalyze w) = Null \<and>
      error (handleAnalyze w) = Null \<and> posts (handleAnalyze w) = Suc (posts w))"
proof -
  have "quiet_while_loading init" by (simp add: quiet_while_loading_def init_def)
  then have "quiet_while_loading (run es init)" by (rule quiet_run)
  then show ?thesis
    by (cases "file w")
       (auto simp: quiet_while_loading_def renderContent_def banner_def handleAnalyze_def
          split: if_splits)
qed

theorem loading_clears_result_and_error_witness:
  "loading (run [Drop [jpeg_2mb], AnalyzeClick] init) \<and>
   result (run [Drop [jpeg_2mb], AnalyzeClick] init) = Null \<and>
   error (run [Drop [jpeg_2mb], AnalyzeClick] init) = Null \<and>
   renderContent (run [Drop [jpeg_2mb], AnalyzeClick] init) = Loading_el \<and>
   banner (run [Drop [jpeg_2mb], AnalyzeClick] init) = None \<and>
   truthy_obj (file (handleFileSelect jpeg_2mb init)) \<and>
   loading (handleAnalyze (handleFileSelect jpeg_2mb init)) \<and>
   posts (handleAnalyze (handleFileSelect jpeg_2mb init)) =
     Suc (posts (handleFileSelect jpeg_2mb init))"
proof -
  have l: "loading (run [Drop [jpeg_2mb], AnalyzeClick] init)"
    by (simp add: init_def handleFileSelect_def handleAnalyze_def)
  have t: "truthy_obj (file (handleFileSelect jpeg_2mb init))"
    by (simp add: handleFileSelect_def)
  from loading_clears_result_and_error
    [of "[Drop [jpeg_2mb], AnalyzeClick]" "handleFileSelect jpeg_2mb init"] l t
  show ?thesis by simp
qed

end
